theory Spec2Isabelle
  imports Main
begin

section \<open>The form builder page: \<^verbatim>\<open>src/app/page.tsx\<close>, component \<^verbatim>\<open>Home\<close>\<close>

text \<open>
  The page holds two forms. The first one (\<^verbatim>\<open>inputCreatorForm\<close>) collects a label, a
  default value and a type; its submit handler \<^verbatim>\<open>onCreateInput\<close> appends a descriptor to
  the field array \<^verbatim>\<open>inputs\<close> of the second form (\<^verbatim>\<open>createdForm\<close>). The second form
  renders one input per descriptor with a Remove button and, when there is more than one
  descriptor, a Move button; its submit handler \<^verbatim>\<open>onCreatedFormSubmit\<close> shows a toast.

  The source file holds two variants of the page. The first, extended one (lines 1-300)
  is the one modelled here; the second (from line 301) is the same page without
  \<^verbatim>\<open>swap\<close>, the Move button, \<^verbatim>\<open>onCreatedFormSubmit\<close> and the Submit button.

  The component is modelled by explicit state passing: a record of the values and errors
  of both forms and of the toasts shown so far, and one function per event handler.
  JavaScript's \<^verbatim>\<open>undefined\<close> is \<open>None\<close>. A failed validation is the \<open>Inl\<close> branch of a
  sum. The fields \<open>creatorErrors\<close> and \<open>createdErrors\<close> are \<^verbatim>\<open>formState.errors\<close> of the
  two forms as the last \<^verbatim>\<open>handleSubmit\<close> left them; the form library's re-validation of a
  field while the user edits it is not part of the model.

  The page calls three libraries whose code is not in the repository: the schema
  combinators (\<^verbatim>\<open>z.string()\<close>, \<^verbatim>\<open>.min\<close>, \<^verbatim>\<open>.optional\<close>, \<^verbatim>\<open>.default\<close>, \<^verbatim>\<open>z.union\<close>,
  \<^verbatim>\<open>z.enum\<close>, \<^verbatim>\<open>z.array\<close>, \<^verbatim>\<open>z.object\<close>), the form state (\<^verbatim>\<open>handleSubmit\<close>, \<^verbatim>\<open>reset\<close>,
  \<^verbatim>\<open>useFieldArray\<close>) and the toast. Each is given the small definition stated where it is
  introduced; everything else follows the text of the page.
\<close>

subsection \<open>Data\<close>

definition INPUT_TYPES :: "string list" where
  "INPUT_TYPES = [''text'', ''number'', ''email'', ''password'']"

text \<open>One element of \<^verbatim>\<open>CreatedFormFields["inputs"]\<close>: \<^verbatim>\<open>{label, value, type}\<close>.\<close>

record FieldDescriptor =
  f_label :: string
  f_value :: string
  f_type :: string

text \<open>The values held by \<^verbatim>\<open>inputCreatorForm\<close> before validation; a key that is not set
  is \<open>None\<close>.\<close>

record InputCreatorValues =
  v_label :: "string option"
  v_defaultValue :: "string option"
  v_type :: "string option"

text \<open>\<^verbatim>\<open>InputCreatorFormFields = z.infer<typeof inputCreatorSchema>\<close>: the validated data
  handed to \<^verbatim>\<open>onCreateInput\<close>.\<close>

record InputCreatorFormFields =
  d_label :: string
  d_defaultValue :: "string option"
  d_type :: string

text \<open>Why a schema rejects a value: it is \<^verbatim>\<open>undefined\<close> where a string is required, it
  is shorter than the minimum, or it is not one of the listed literals.\<close>

datatype issue = Required | TooSmall | InvalidOption

text \<open>\<^verbatim>\<open>inputCreatorForm.formState.errors\<close>, read at \<^verbatim>\<open>.label\<close>, \<^verbatim>\<open>.defaultValue\<close> and
  \<^verbatim>\<open>.type\<close>.\<close>

record InputCreatorErrors =
  e_label :: "issue option"
  e_defaultValue :: "issue option"
  e_type :: "issue option"

text \<open>\<^verbatim>\<open>createdForm.formState.errors.inputs[index]\<close>, read at \<^verbatim>\<open>.value\<close> by the page.\<close>

record FieldErrors =
  fe_label :: "issue option"
  fe_value :: "issue option"
  fe_type :: "issue option"

text \<open>What the page renders into a toast.\<close>

datatype node =
    Text string
  | Nothing
  | Strong string
  | Icon string
  | Fragment string "node list"
  | P "node list"
  | H3 "node list"
  | Div "node list"

record page =
  creatorValues :: InputCreatorValues
  creatorErrors :: InputCreatorErrors
  inputs :: "FieldDescriptor list"
  createdErrors :: "FieldErrors option list"
  toasts :: "node list"

subsection \<open>The schemas\<close>

text \<open>The combinators of the validation library that the two schemas use (library code,
  not in the repository), with the meaning the library documents: \<^verbatim>\<open>z.string()\<close> accepts every string and rejects
  \<^verbatim>\<open>undefined\<close>; \<^verbatim>\<open>.min(n)\<close> also rejects a string shorter than \<open>n\<close>; \<^verbatim>\<open>.optional()\<close>
  lets \<^verbatim>\<open>undefined\<close> through; a union of literals (or \<^verbatim>\<open>z.enum\<close>) accepts exactly the listed
  strings; \<^verbatim>\<open>.default(d)\<close> replaces \<^verbatim>\<open>undefined\<close> by \<open>d\<close> before validating.\<close>

definition z_string :: "string option \<Rightarrow> issue + string" where
  "z_string v = (case v of None \<Rightarrow> Inl Required | Some s \<Rightarrow> Inr s)"

definition z_string_min :: "nat \<Rightarrow> string option \<Rightarrow> issue + string" where
  "z_string_min n v =
     (case z_string v of
        Inl e \<Rightarrow> Inl e
      | Inr s \<Rightarrow> if length s < n then Inl TooSmall else Inr s)"

definition z_string_optional :: "string option \<Rightarrow> issue + string option" where
  "z_string_optional v =
     (case v of
        None \<Rightarrow> Inr None
      | Some s \<Rightarrow> (case z_string (Some s) of Inl e \<Rightarrow> Inl e | Inr s' \<Rightarrow> Inr (Some s')))"

definition z_enum :: "string list \<Rightarrow> string option \<Rightarrow> issue + string" where
  "z_enum lits v =
     (case v of
        None \<Rightarrow> Inl Required
      | Some t \<Rightarrow> if t \<in> set lits then Inr t else Inl InvalidOption)"

definition z_enum_default :: "string list \<Rightarrow> string \<Rightarrow> string option \<Rightarrow> issue + string" where
  "z_enum_default lits d v = (case v of None \<Rightarrow> z_enum lits (Some d) | Some t \<Rightarrow> z_enum lits (Some t))"

fun issue_of :: "issue + 'a \<Rightarrow> issue option" where
  "issue_of (Inl e) = Some e"
| "issue_of (Inr _) = None"

text \<open>\<^verbatim>\<open>inputCreatorSchema\<close> (lines 49-60): label \<^verbatim>\<open>z.string().min(1)\<close>, defaultValue
  \<^verbatim>\<open>z.string().optional()\<close>, type the union of the four literals with default
  \<^verbatim>\<open>"text"\<close>. An object schema validates every key and reports the issues of all of them.\<close>

definition inputCreatorSchema :: "InputCreatorValues \<Rightarrow> InputCreatorErrors + InputCreatorFormFields" where
  "inputCreatorSchema v =
     (case (z_string_min 1 (v_label v),
            z_string_optional (v_defaultValue v),
            z_enum_default [''text'', ''number'', ''email'', ''password''] ''text'' (v_type v)) of
        (Inr l, Inr d, Inr t) \<Rightarrow> Inr \<lparr>d_label = l, d_defaultValue = d, d_type = t\<rparr>
      | (l, d, t) \<Rightarrow>
          Inl \<lparr>e_label = issue_of l, e_defaultValue = issue_of d, e_type = issue_of t\<rparr>)"

text \<open>The element schema of \<^verbatim>\<open>createdFormSchema\<close> (lines 64-68): label
  \<^verbatim>\<open>z.string().min(1)\<close>, value \<^verbatim>\<open>z.string()\<close>, type \<^verbatim>\<open>z.enum(INPUT_TYPES)\<close>.\<close>

definition createdFormSchema_element :: "FieldDescriptor \<Rightarrow> FieldErrors + FieldDescriptor" where
  "createdFormSchema_element x =
     (case (z_string_min 1 (Some (f_label x)),
            z_string (Some (f_value x)),
            z_enum INPUT_TYPES (Some (f_type x))) of
        (Inr l, Inr v, Inr t) \<Rightarrow> Inr \<lparr>f_label = l, f_value = v, f_type = t\<rparr>
      | (l, v, t) \<Rightarrow> Inl \<lparr>fe_label = issue_of l, fe_value = issue_of v, fe_type = issue_of t\<rparr>)"

text \<open>\<^verbatim>\<open>createdFormSchema\<close> (lines 62-70): the array validates every element; the data is
  the list of validated elements, the errors are indexed like the array, with no entry
  (\<open>None\<close>) at an index whose element is valid.\<close>

definition createdFormSchema :: "FieldDescriptor list \<Rightarrow> FieldErrors option list + FieldDescriptor list" where
  "createdFormSchema xs =
     (let rs = map createdFormSchema_element xs in
      if list_all (\<lambda>r. \<not> isl r) rs
      then Inr (map projr rs)
      else Inl (map (\<lambda>r. case r of Inl e \<Rightarrow> Some e | Inr _ \<Rightarrow> None) rs))"

subsection \<open>The field array\<close>

text \<open>\<^verbatim>\<open>append\<close>, \<^verbatim>\<open>remove\<close> and \<^verbatim>\<open>swap\<close> are returned by \<^verbatim>\<open>useFieldArray\<close>
  (lines 100-108), a function of the form library whose code is not in the repository.
  The page only calls them. With indices in range they do what the spec's section 4.2
  says. Out of range they are the JavaScript array operations the library performs, a
  splice for \<^verbatim>\<open>remove\<close> and two indexed assignments for \<^verbatim>\<open>swap\<close>, and not the no-ops
  of the spec's section 7. An index is a JavaScript number, here an \<open>int\<close>; it is in
  range when it is a position of the list.\<close>

definition in_range :: "int \<Rightarrow> 'a list \<Rightarrow> bool" where
  "in_range i xs = (0 \<le> i \<and> i < int (length xs))"

text \<open>Modelled from the spec: \<^verbatim>\<open>append\<close> of \<^verbatim>\<open>useFieldArray\<close> is missing from the sources.
  Section 4.2: "append(descriptor): adds to the end. No constraints beyond descriptor
  validity."\<close>

definition append_field :: "'a \<Rightarrow> 'a list \<Rightarrow> 'a list" where
  "append_field x xs = xs @ [x]"

text \<open>Modelled from the spec: \<^verbatim>\<open>remove\<close> of \<^verbatim>\<open>useFieldArray\<close> is missing from the sources.
  Section 4.2: "remove(index): deletes the descriptor at position index (0-based). [...]
  Indices of subsequent elements shift down by one." The library removes with
  \<^verbatim>\<open>splice(index, 1)\<close> on a copy of the array and returns the copy (an array of
  descriptors has no falsy entry for it to drop). The position deleted is \<open>index\<close> itself
  when it is in range. A negative index counts from the end of the list and stops at the
  first position; an index at or beyond the length deletes nothing. For a negative index
  this is not the spec's "fails silently if index out of range".\<close>

definition remove_field :: "int \<Rightarrow> 'a list \<Rightarrow> 'a list" where
  "remove_field index xs =
     (let n = int (length xs);
          start = (if index < 0 then max (n + index) 0 else min index n)
      in take (nat start) xs @ drop (Suc (nat start)) xs)"

text \<open>A JavaScript array read and written by index. An entry may be \<^verbatim>\<open>undefined\<close>, here
  \<open>None\<close>. Reading outside the array gives \<^verbatim>\<open>undefined\<close>. Writing at a position of
  the array replaces the entry; writing beyond the end grows the array up to that
  position, the entries in between being \<^verbatim>\<open>undefined\<close>; writing at a negative index sets
  a property of the array object and changes no entry.\<close>

definition array_get :: "'a option list \<Rightarrow> int \<Rightarrow> 'a option" where
  "array_get data i = (if in_range i data then data ! nat i else None)"

definition array_set :: "int \<Rightarrow> 'a option \<Rightarrow> 'a option list \<Rightarrow> 'a option list" where
  "array_set i v data =
     (if i < 0 then data
      else if i < int (length data) then data[nat i := v]
      else data @ replicate (nat i - length data) None @ [v])"

text \<open>Modelled from the spec: \<^verbatim>\<open>swap\<close> of \<^verbatim>\<open>useFieldArray\<close> is missing from the sources.
  Section 4.2: "swap(indexA, indexB): exchanges the two descriptors' positions". The
  library does it by one destructuring assignment: the entries at \<open>indexA\<close> and
  \<open>indexB\<close> are both read, then the entry read at \<open>indexB\<close> is written at \<open>indexA\<close>
  and the entry read at \<open>indexA\<close> is written at \<open>indexB\<close>. With both indices in range
  that exchanges the two entries. Otherwise it is not the no-op of the spec's section 7:
  an entry read out of range is \<^verbatim>\<open>undefined\<close>, and it is written all the same.\<close>

definition swap_field :: "int \<Rightarrow> int \<Rightarrow> 'a option list \<Rightarrow> 'a option list" where
  "swap_field indexA indexB data =
     (let a = array_get data indexA;
          b = array_get data indexB
      in array_set indexB a (array_set indexA b data))"

subsection \<open>The handlers\<close>

text \<open>\<^verbatim>\<open>formatCreatedFormData\<close> (lines 76-87): a paragraph with one fragment per input,
  keyed by its label, holding the separator (\<^verbatim>\<open>index !== 0 && ", "\<close> renders nothing at
  index 0), the label in bold, a colon and the value.\<close>

definition formatCreatedFormData :: "FieldDescriptor list \<Rightarrow> node" where
  "formatCreatedFormData data =
     P (map (\<lambda>(index, input).
               Fragment (f_label input)
                 [if index \<noteq> 0 then Text '', '' else Nothing,
                  Strong (f_label input), Text '': '', Text (f_value input)])
            (enumerate 0 data))"

text \<open>\<^verbatim>\<open>inputCreatorForm.reset(values)\<close> (library code, not in the repository): the form's
  values become the object given, a key the object lacks being unset, and the form's
  errors are cleared.\<close>

definition inputCreatorForm_reset :: "InputCreatorValues \<Rightarrow> page \<Rightarrow> page" where
  "inputCreatorForm_reset values s =
     s\<lparr>creatorValues := values,
       creatorErrors := \<lparr>e_label = None, e_defaultValue = None, e_type = None\<rparr>\<rparr>"

text \<open>\<^verbatim>\<open>onCreateInput\<close> (lines 110-120).\<close>

definition onCreateInput :: "InputCreatorFormFields \<Rightarrow> page \<Rightarrow> page" where
  "onCreateInput data s =
     inputCreatorForm_reset \<lparr>v_label = Some [], v_defaultValue = Some [], v_type = None\<rparr>
       (s\<lparr>inputs :=
            append_field
              \<lparr>f_label = d_label data,
               f_value = (case d_defaultValue data of None \<Rightarrow> [] | Some v \<Rightarrow> v),
               f_type = d_type data\<rparr>
              (inputs s)\<rparr>)"

text \<open>\<^verbatim>\<open>onCreatedFormSubmit\<close> (lines 122-132).\<close>

definition onCreatedFormSubmit :: "FieldDescriptor list \<Rightarrow> page \<Rightarrow> page" where
  "onCreatedFormSubmit data s =
     s\<lparr>toasts := toasts s @
         [Div [H3 [Icon ''PartyPopper'', Text ''Answers submitted!''],
               formatCreatedFormData data]]\<rparr>"

text \<open>\<^verbatim>\<open>form.handleSubmit(onValid)\<close> with a schema resolver (library code, not in the
  repository; lines 138 and 225 install it as the forms' \<^verbatim>\<open>onSubmit\<close>): the form's current
  values are validated by the schema; when they are valid the errors are cleared and
  \<open>onValid\<close> gets the validated data, otherwise the errors are stored and \<open>onValid\<close> is
  not called.\<close>

definition inputCreatorForm_handleSubmit :: "page \<Rightarrow> page" where
  "inputCreatorForm_handleSubmit s =
     (case inputCreatorSchema (creatorValues s) of
        Inl errors \<Rightarrow> s\<lparr>creatorErrors := errors\<rparr>
      | Inr data \<Rightarrow>
          onCreateInput data
            (s\<lparr>creatorErrors := \<lparr>e_label = None, e_defaultValue = None, e_type = None\<rparr>\<rparr>))"

definition createdForm_handleSubmit :: "page \<Rightarrow> page" where
  "createdForm_handleSubmit s =
     (case createdFormSchema (inputs s) of
        Inl errors \<Rightarrow> s\<lparr>createdErrors := errors\<rparr>
      | Inr data \<Rightarrow> onCreatedFormSubmit data (s\<lparr>createdErrors := []\<rparr>))"

text \<open>The Remove button's \<^verbatim>\<open>onClick\<close> (line 242) and the Move button's (lines 252-257),
  in the row rendered for \<open>index\<close>. The field array of the page holds descriptors, while
  the array \<^verbatim>\<open>swap\<close> works on may get \<^verbatim>\<open>undefined\<close> entries: the move handler passes the
  list as an array whose entries are all defined and reads the rows back. Both indices
  of a rendered Move button are in range, and then every entry read back is defined
  (\<open>swap_field_in_range\<close> below).\<close>

definition remove_onClick :: "nat \<Rightarrow> page \<Rightarrow> page" where
  "remove_onClick index s = s\<lparr>inputs := remove_field (int index) (inputs s)\<rparr>"

definition move_onClick :: "nat \<Rightarrow> page \<Rightarrow> page" where
  "move_onClick index s =
     s\<lparr>inputs :=
         map the
           (swap_field (int index)
              (if index = 0 then int (length (inputs s)) - 1 else int index - 1)
              (map Some (inputs s)))\<rparr>"

text \<open>\<^verbatim>\<open>field.onChange\<close> of the inputs: of the three controls of the first form, and of
  the value input of row \<open>index\<close> of the second (line 239), which overwrites the value
  only.\<close>

definition label_onChange :: "string \<Rightarrow> page \<Rightarrow> page" where
  "label_onChange x s = s\<lparr>creatorValues := (creatorValues s)\<lparr>v_label := Some x\<rparr>\<rparr>"

definition defaultValue_onChange :: "string \<Rightarrow> page \<Rightarrow> page" where
  "defaultValue_onChange x s = s\<lparr>creatorValues := (creatorValues s)\<lparr>v_defaultValue := Some x\<rparr>\<rparr>"

definition type_onValueChange :: "string \<Rightarrow> page \<Rightarrow> page" where
  "type_onValueChange x s = s\<lparr>creatorValues := (creatorValues s)\<lparr>v_type := Some x\<rparr>\<rparr>"

definition value_onChange :: "nat \<Rightarrow> string \<Rightarrow> page \<Rightarrow> page" where
  "value_onChange index x s =
     s\<lparr>inputs := (inputs s)[index := (inputs s ! index)\<lparr>f_value := x\<rparr>]\<rparr>"

subsection \<open>What is rendered, and the events it can receive\<close>

text \<open>The events the rendered page can receive: a change of one of the three controls of
  the first form, the submission of the first form (the Add button), a change of the value
  input of a row, a click on a row's Remove or Move button, and the submission of the
  second form (the Submit button).\<close>

datatype event =
    Label_change string
  | DefaultValue_change string
  | Type_change string
  | Add_submit
  | Value_change nat string
  | Remove_click nat
  | Move_click nat
  | Created_submit

text \<open>The controls of the first form are always rendered, the radio items being the four
  \<^verbatim>\<open>INPUT_TYPES\<close> (line 188). A row with its value input and Remove button is rendered for
  each index of \<^verbatim>\<open>inputs\<close> (line 229); its Move button under \<^verbatim>\<open>inputs.length > 1\<close>
  (line 248); the Submit button of the second form under \<^verbatim>\<open>inputs.length > 0\<close>
  (line 288).\<close>

fun rendered :: "page \<Rightarrow> event \<Rightarrow> bool" where
  "rendered s (Label_change x) = True"
| "rendered s (DefaultValue_change x) = True"
| "rendered s (Type_change x) = (x \<in> set INPUT_TYPES)"
| "rendered s Add_submit = True"
| "rendered s (Value_change index x) = (index < length (inputs s))"
| "rendered s (Remove_click index) = (index < length (inputs s))"
| "rendered s (Move_click index) = (index < length (inputs s) \<and> length (inputs s) > 1)"
| "rendered s Created_submit = (length (inputs s) > 0)"

fun handle :: "event \<Rightarrow> page \<Rightarrow> page" where
  "handle (Label_change x) s = label_onChange x s"
| "handle (DefaultValue_change x) s = defaultValue_onChange x s"
| "handle (Type_change x) s = type_onValueChange x s"
| "handle Add_submit s = inputCreatorForm_handleSubmit s"
| "handle (Value_change index x) s = value_onChange index x s"
| "handle (Remove_click index) s = remove_onClick index s"
| "handle (Move_click index) s = move_onClick index s"
| "handle Created_submit s = createdForm_handleSubmit s"

text \<open>An event reaches its handler only through a control that is rendered.\<close>

definition dispatch :: "page \<Rightarrow> event \<Rightarrow> page option" where
  "dispatch s ev = (if rendered s ev then Some (handle ev s) else None)"

fun run :: "event list \<Rightarrow> page \<Rightarrow> page option" where
  "run [] s = Some s"
| "run (ev # evs) s = (case dispatch s ev of None \<Rightarrow> None | Some s' \<Rightarrow> run evs s')"

text \<open>The page as first rendered: \<^verbatim>\<open>defaultValues: { type: "text" }\<close> for the first form
  (lines 90-95); no default values for the second (lines 96-98), whose field array
  \<^verbatim>\<open>inputs\<close> is then the empty list.\<close>

definition initial :: page where
  "initial =
     \<lparr>creatorValues = \<lparr>v_label = None, v_defaultValue = None, v_type = Some ''text''\<rparr>,
      creatorErrors = \<lparr>e_label = None, e_defaultValue = None, e_type = None\<rparr>,
      inputs = [],
      createdErrors = [],
      toasts = []\<rparr>"

text \<open>A page with three rows, for the examples: the page as first rendered, with the
  field array holding A, B and C.\<close>

definition page_ABC :: page where
  "page_ABC =
     initial\<lparr>inputs :=
       [\<lparr>f_label = ''A'', f_value = ''x'', f_type = ''text''\<rparr>,
        \<lparr>f_label = ''B'', f_value = ''y'', f_type = ''email''\<rparr>,
        \<lparr>f_label = ''C'', f_value = ''z'', f_type = ''number''\<rparr>]\<rparr>"

text \<open>The scenario of the spec, section 8: a field Name with no default value, a field Age
  of type number with default value 0, then Ada typed into the first row; and the page it
  leads to.\<close>

definition scenario :: "event list" where
  "scenario =
     [Label_change ''Name'', Add_submit,
      Label_change ''Age'', DefaultValue_change ''0'', Type_change ''number'', Add_submit,
      Value_change 0 ''Ada'']"

definition page_scenario :: page where
  "page_scenario =
     \<lparr>creatorValues = \<lparr>v_label = Some [], v_defaultValue = Some [], v_type = None\<rparr>,
      creatorErrors = \<lparr>e_label = None, e_defaultValue = None, e_type = None\<rparr>,
      inputs = [\<lparr>f_label = ''Name'', f_value = ''Ada'', f_type = ''text''\<rparr>,
                \<lparr>f_label = ''Age'', f_value = ''0'', f_type = ''number''\<rparr>],
      createdErrors = [],
      toasts = []\<rparr>"

section \<open>What the schemas accept\<close>

lemma createdFormSchema_element_eq:
  "createdFormSchema_element x =
     (if f_label x \<noteq> [] \<and> f_type x \<in> set INPUT_TYPES then Inr x
      else Inl \<lparr>fe_label = (if f_label x = [] then Some TooSmall else None),
               fe_value = None,
               fe_type = (if f_type x \<in> set INPUT_TYPES then None else Some InvalidOption)\<rparr>)"
  by (simp add: createdFormSchema_element_def z_string_min_def z_string_def z_enum_def)

lemma createdFormSchema_eq:
  "createdFormSchema xs =
     (if \<forall>x\<in>set xs. f_label x \<noteq> [] \<and> f_type x \<in> set INPUT_TYPES then Inr xs
      else Inl (map (\<lambda>x. if f_label x \<noteq> [] \<and> f_type x \<in> set INPUT_TYPES then None
                          else Some \<lparr>fe_label = (if f_label x = [] then Some TooSmall else None),
                                     fe_value = None,
                                     fe_type = (if f_type x \<in> set INPUT_TYPES then None
                                                else Some InvalidOption)\<rparr>) xs))"
proof (cases "\<forall>x\<in>set xs. f_label x \<noteq> [] \<and> f_type x \<in> set INPUT_TYPES")
  case True
  then have el: "\<forall>x\<in>set xs. createdFormSchema_element x = Inr x"
    by (simp add: createdFormSchema_element_eq)
  then have m: "map createdFormSchema_element xs = map Inr xs"
    by simp
  from True show ?thesis
    unfolding createdFormSchema_def Let_def m
    by (simp add: list_all_iff o_def)
next
  case False
  then obtain x where x: "x \<in> set xs" and bad: "\<not> (f_label x \<noteq> [] \<and> f_type x \<in> set INPUT_TYPES)"
    by blast
  from bad have "isl (createdFormSchema_element x)"
    by (simp add: createdFormSchema_element_eq)
  with x have no: "\<not> list_all (\<lambda>r. \<not> isl r) (map createdFormSchema_element xs)"
    by (force simp: list_all_iff)
  have "map (\<lambda>r. case r of Inl e \<Rightarrow> Some e | Inr _ \<Rightarrow> None) (map createdFormSchema_element xs) =
        map (\<lambda>x. if f_label x \<noteq> [] \<and> f_type x \<in> set INPUT_TYPES then None
                          else Some \<lparr>fe_label = (if f_label x = [] then Some TooSmall else None),
                                     fe_value = None,
                                     fe_type = (if f_type x \<in> set INPUT_TYPES then None
                                                else Some InvalidOption)\<rparr>) xs"
    by (simp add: createdFormSchema_element_eq)
  with no False show ?thesis
    unfolding createdFormSchema_def Let_def by simp
qed

lemma inputCreatorSchema_eq:
  "inputCreatorSchema v =
     (if (v_label v = None \<or> v_label v = Some [])
         \<or> (\<exists>t. v_type v = Some t \<and> t \<notin> set INPUT_TYPES)
      then Inl \<lparr>e_label = (case v_label v of None \<Rightarrow> Some Required
                            | Some l \<Rightarrow> if l = [] then Some TooSmall else None),
               e_defaultValue = None,
               e_type = (case v_type v of None \<Rightarrow> None
                           | Some t \<Rightarrow> if t \<in> set INPUT_TYPES then None else Some InvalidOption)\<rparr>
      else Inr \<lparr>d_label = the (v_label v), d_defaultValue = v_defaultValue v,
               d_type = (case v_type v of None \<Rightarrow> ''text'' | Some t \<Rightarrow> t)\<rparr>)"
  by (auto simp: inputCreatorSchema_def z_string_min_def z_string_def z_string_optional_def
        z_enum_default_def z_enum_def INPUT_TYPES_def split: option.splits)

section \<open>Removing and moving rows\<close>

text \<open>With indices in range the two library operations are the ones of the spec's section
  4.2: the row at the index is deleted, and two rows are exchanged with no entry left
  undefined.\<close>

lemma remove_field_in_range:
  "in_range i xs \<Longrightarrow> remove_field i xs = take (nat i) xs @ drop (Suc (nat i)) xs"
  by (simp add: remove_field_def in_range_def Let_def min_def)

lemma swap_field_in_range:
  assumes "in_range a xs" and "in_range b xs"
  shows "swap_field a b (map Some xs) = map Some (xs[nat a := xs ! nat b, nat b := xs ! nat a])"
proof -
  from assms have a: "nat a < length xs" and b: "nat b < length xs"
    by (auto simp: in_range_def)
  from assms have "swap_field a b (map Some xs) =
      (map Some xs)[nat a := map Some xs ! nat b, nat b := map Some xs ! nat a]"
    by (simp add: swap_field_def array_get_def array_set_def in_range_def Let_def)
  with a b show ?thesis
    by (simp add: map_update)
qed

lemma move_onClick_in_range:
  assumes "rendered s (Move_click k)"
  shows "inputs (move_onClick k s) =
           (inputs s)[k := inputs s ! (if k = 0 then length (inputs s) - 1 else k - 1),
                      (if k = 0 then length (inputs s) - 1 else k - 1) := inputs s ! k]"
proof -
  let ?xs = "inputs s"
  let ?p = "if k = 0 then length ?xs - 1 else k - 1"
  from assms have k: "k < length ?xs" and n: "1 < length ?xs"
    by simp_all
  have p: "(if k = 0 then int (length ?xs) - 1 else int k - 1) = int ?p"
    using k n by (simp add: of_nat_diff)
  have "?p < length ?xs"
    using k n by (cases "k = 0") auto
  with k have "in_range (int k) ?xs" and "in_range (int ?p) ?xs"
    by (simp_all add: in_range_def)
  then have "swap_field (int k) (int ?p) (map Some ?xs) =
             map Some (?xs[k := ?xs ! ?p, ?p := ?xs ! k])"
    using swap_field_in_range [of "int k" ?xs "int ?p"] by simp
  then show ?thesis
    unfolding move_onClick_def p by (simp add: o_def)
qed

text \<open>
  Claim C5. For a field list of length \<open>N > 0\<close> and an index \<open>i < N\<close>, the Remove button
  of row \<open>i\<close> is rendered, and its handler \<^verbatim>\<open>remove(index)\<close> leaves a list of length
  \<open>N - 1\<close>: the original with the element at index \<open>i\<close> deleted. The elements before
  \<open>i\<close> keep their index, the elements after it move down by one, in the same order.
\<close>

theorem remove_click_deletes_row:
  assumes "i < length (inputs s)"
  shows "dispatch s (Remove_click i) = Some (remove_onClick i s) \<and>
         length (inputs (remove_onClick i s)) = length (inputs s) - 1 \<and>
         inputs (remove_onClick i s) = take i (inputs s) @ drop (Suc i) (inputs s) \<and>
         (\<forall>j. j < i \<longrightarrow> inputs (remove_onClick i s) ! j = inputs s ! j) \<and>
         (\<forall>j. i \<le> j \<and> j < length (inputs s) - 1 \<longrightarrow>
              inputs (remove_onClick i s) ! j = inputs s ! Suc j)"
proof -
  from assms have "in_range (int i) (inputs s)"
    by (simp add: in_range_def)
  then have "inputs (remove_onClick i s) = take i (inputs s) @ drop (Suc i) (inputs s)"
    by (simp add: remove_onClick_def remove_field_in_range)
  with assms show ?thesis
    by (auto simp: dispatch_def nth_append min_def)
qed

theorem remove_click_deletes_row_witness:
  "(1::nat) < length (inputs page_ABC) \<and>
   dispatch page_ABC (Remove_click 1) = Some (remove_onClick 1 page_ABC) \<and>
   inputs (remove_onClick 1 page_ABC) =
     [\<lparr>f_label = ''A'', f_value = ''x'', f_type = ''text''\<rparr>,
      \<lparr>f_label = ''C'', f_value = ''z'', f_type = ''number''\<rparr>]"
  using remove_click_deletes_row [of 1 page_ABC]
  by (simp add: page_ABC_def)

text \<open>
  Claim C2. For a field list of length \<open>N \<ge> 2\<close>, the Move button of row \<open>k\<close> is rendered
  and its handler exchanges the descriptors at positions 0 and \<open>N - 1\<close> when \<open>k = 0\<close>
  (the first row wraps to the last), and those at positions \<open>k\<close> and \<open>k - 1\<close> when
  \<open>k > 0\<close>; the list keeps its length and every other position keeps its descriptor.
\<close>

theorem move_click_swaps:
  assumes "2 \<le> length (inputs s)" and "k < length (inputs s)"
  shows "dispatch s (Move_click k) = Some (move_onClick k s) \<and>
         length (inputs (move_onClick k s)) = length (inputs s) \<and>
         (k = 0 \<longrightarrow>
            inputs (move_onClick k s) ! 0 = inputs s ! (length (inputs s) - 1) \<and>
            inputs (move_onClick k s) ! (length (inputs s) - 1) = inputs s ! 0 \<and>
            (\<forall>j. j < length (inputs s) \<and> j \<noteq> 0 \<and> j \<noteq> length (inputs s) - 1 \<longrightarrow>
                 inputs (move_onClick k s) ! j = inputs s ! j)) \<and>
         (0 < k \<longrightarrow>
            inputs (move_onClick k s) ! k = inputs s ! (k - 1) \<and>
            inputs (move_onClick k s) ! (k - 1) = inputs s ! k \<and>
            (\<forall>j. j < length (inputs s) \<and> j \<noteq> k \<and> j \<noteq> k - 1 \<longrightarrow>
                 inputs (move_onClick k s) ! j = inputs s ! j))"
proof -
  let ?xs = "inputs s"
  let ?p = "if k = 0 then length ?xs - 1 else k - 1"
  have p: "(if k = 0 then int (length ?xs) - 1 else int k - 1) = int ?p"
    using assms by (simp add: of_nat_diff)
  have plt: "?p < length ?xs"
    using assms by (cases "k = 0") auto
  have eq: "inputs (move_onClick k s) = ?xs[k := ?xs ! ?p, ?p := ?xs ! k]"
    using assms move_onClick_in_range [of s k] by simp
  have d: "dispatch s (Move_click k) = Some (move_onClick k s)"
    using assms by (simp add: dispatch_def)
  show ?thesis
    unfolding eq using d assms plt
    by (auto simp: nth_list_update)
qed

theorem move_click_swaps_witness:
  "(2::nat) \<le> length (inputs page_ABC) \<and> (0::nat) < length (inputs page_ABC) \<and>
   dispatch page_ABC (Move_click 0) = Some (move_onClick 0 page_ABC) \<and>
   inputs (move_onClick 0 page_ABC) ! 0 = \<lparr>f_label = ''C'', f_value = ''z'', f_type = ''number''\<rparr> \<and>
   inputs (move_onClick 0 page_ABC) ! 1 = \<lparr>f_label = ''B'', f_value = ''y'', f_type = ''email''\<rparr> \<and>
   inputs (move_onClick 0 page_ABC) ! 2 = \<lparr>f_label = ''A'', f_value = ''x'', f_type = ''text''\<rparr>"
  using move_click_swaps [of page_ABC 0]
  by (simp add: page_ABC_def move_onClick_def swap_field_def array_get_def array_set_def
      in_range_def numeral_2_eq_2)

section \<open>What the field list of a running page holds\<close>

lemma set_remove_field: "set (remove_field i xs) \<subseteq> set xs"
  by (auto simp: remove_field_def Let_def dest: in_set_takeD in_set_dropD)

lemma set_move_onClick:
  assumes "rendered s (Move_click k)"
  shows "set (inputs (move_onClick k s)) \<subseteq> set (inputs s)"
proof -
  let ?xs = "inputs s"
  let ?p = "if k = 0 then length ?xs - 1 else k - 1"
  from assms have k: "k < length ?xs" and n: "1 < length ?xs"
    by simp_all
  then have p: "?p < length ?xs"
    by (cases "k = 0") auto
  from k p have "set (?xs[k := ?xs ! ?p, ?p := ?xs ! k]) = set ?xs"
    by (rule set_swap)
  with assms show ?thesis
    by (simp add: move_onClick_in_range)
qed

text \<open>No handler puts a descriptor with an empty label or an unknown type into the list:
  \<^verbatim>\<open>onCreateInput\<close> appends validated data, the other handlers add no descriptor and
  change no label or type.\<close>

lemma handle_labels:
  assumes "\<forall>x\<in>set (inputs s). f_label x \<noteq> [] \<and> f_type x \<in> set INPUT_TYPES"
    and "rendered s ev"
  shows "\<forall>x\<in>set (inputs (handle ev s)). f_label x \<noteq> [] \<and> f_type x \<in> set INPUT_TYPES"
proof (cases ev)
  case Add_submit
  with assms show ?thesis
    by (auto simp: inputCreatorForm_handleSubmit_def inputCreatorSchema_eq
        onCreateInput_def inputCreatorForm_reset_def append_field_def INPUT_TYPES_def
        split: option.splits)
next
  case (Value_change i v)
  have "\<And>x. x \<in> set ((inputs s)[i := (inputs s ! i)\<lparr>f_value := v\<rparr>]) \<Longrightarrow>
            x \<in> set (inputs s) \<or> x = (inputs s ! i)\<lparr>f_value := v\<rparr>"
    using set_update_subset_insert [of "inputs s" i] by auto
  with assms Value_change show ?thesis
    by (fastforce simp: value_onChange_def)
next
  case (Remove_click i)
  with assms set_remove_field [of "int i" "inputs s"] show ?thesis
    by (auto simp: remove_onClick_def)
next
  case (Move_click i)
  with assms(2) have "set (inputs (move_onClick i s)) \<subseteq> set (inputs s)"
    by (simp add: set_move_onClick)
  with assms Move_click show ?thesis
    by (simp add: subset_iff)
next
  case Created_submit
  with assms show ?thesis
    by (auto simp: createdForm_handleSubmit_def onCreatedFormSubmit_def split: sum.splits)
qed (use assms in \<open>auto simp: label_onChange_def defaultValue_onChange_def type_onValueChange_def\<close>)

lemma run_labels:
  assumes "run evs s = Some s'"
    and "\<forall>x\<in>set (inputs s). f_label x \<noteq> [] \<and> f_type x \<in> set INPUT_TYPES"
  shows "\<forall>x\<in>set (inputs s'). f_label x \<noteq> [] \<and> f_type x \<in> set INPUT_TYPES"
  using assms
proof (induction evs arbitrary: s)
  case Nil
  then show ?case by simp
next
  case (Cons ev evs)
  from Cons.prems(1) have r: "rendered s ev" and rest: "run evs (handle ev s) = Some s'"
    by (auto simp: dispatch_def split: if_splits)
  from Cons.prems(2) r
  have "\<forall>x\<in>set (inputs (handle ev s)). f_label x \<noteq> [] \<and> f_type x \<in> set INPUT_TYPES"
    by (rule handle_labels)
  with rest show ?case
    by (rule Cons.IH)
qed

lemma reachable_labels:
  "run evs initial = Some s \<Longrightarrow>
   \<forall>x\<in>set (inputs s). f_label x \<noteq> [] \<and> f_type x \<in> set INPUT_TYPES"
  by (erule run_labels) (simp add: initial_def)

text \<open>Only the submission of the second form shows a toast, and it is rendered from the
  current list.\<close>

lemma handle_toasts:
  assumes "rendered s ev"
  shows "toasts (handle ev s) = toasts s \<or>
         (ev = Created_submit \<and> inputs s \<noteq> [] \<and>
          toasts (handle ev s) =
            toasts s @ [Div [H3 [Icon ''PartyPopper'', Text ''Answers submitted!''],
                             formatCreatedFormData (inputs s)]])"
proof (cases ev)
  case Add_submit
  then show ?thesis
    by (simp add: inputCreatorForm_handleSubmit_def onCreateInput_def inputCreatorForm_reset_def
        split: sum.splits)
next
  case Created_submit
  with assms show ?thesis
    by (simp add: createdForm_handleSubmit_def createdFormSchema_eq onCreatedFormSubmit_def)
qed (simp_all add: label_onChange_def defaultValue_onChange_def type_onValueChange_def
      value_onChange_def remove_onClick_def move_onClick_def)

lemma formatCreatedFormData_empty:
  "formatCreatedFormData [] = formatCreatedFormData xs \<longleftrightarrow> xs = []"
  by (cases xs) (simp_all add: formatCreatedFormData_def)

lemma run_toasts:
  assumes "run evs s = Some s'"
    and "Div [H3 [Icon ''PartyPopper'', Text ''Answers submitted!''], formatCreatedFormData []]
           \<notin> set (toasts s)"
  shows "Div [H3 [Icon ''PartyPopper'', Text ''Answers submitted!''], formatCreatedFormData []]
           \<notin> set (toasts s')"
  using assms
proof (induction evs arbitrary: s)
  case Nil
  then show ?case by simp
next
  case (Cons ev evs)
  from Cons.prems(1) have r: "rendered s ev" and rest: "run evs (handle ev s) = Some s'"
    by (auto simp: dispatch_def split: if_splits)
  from handle_toasts [OF r] Cons.prems(2)
  have "Div [H3 [Icon ''PartyPopper'', Text ''Answers submitted!''], formatCreatedFormData []]
          \<notin> set (toasts (handle ev s))"
    by (auto simp: formatCreatedFormData_empty)
  with rest show ?case
    by (rule Cons.IH)
qed

text \<open>The equations that evaluate a run of the page on concrete events.\<close>

lemmas handler_defs =
  dispatch_def label_onChange_def defaultValue_onChange_def type_onValueChange_def
  value_onChange_def remove_onClick_def move_onClick_def
  inputCreatorForm_handleSubmit_def createdForm_handleSubmit_def
  onCreateInput_def onCreatedFormSubmit_def inputCreatorForm_reset_def
  append_field_def remove_field_def swap_field_def array_get_def array_set_def in_range_def
  inputCreatorSchema_eq createdFormSchema_eq formatCreatedFormData_def
  INPUT_TYPES_def initial_def

section \<open>The first form: defining a field\<close>

text \<open>
  Claim C3. When the first form holds a non-empty label \<open>L\<close>, a default value \<open>D\<close> and a
  type \<open>T\<close> among text, number, email and password, submitting it appends exactly the
  descriptor \<open>{label: L, value: D, type: T}\<close> at the end of the field list, the earlier
  descriptors staying as and where they were, and resets the form: label and default value
  blank, type unset, which the schema reads as its default, text.
\<close>

theorem collector_accepts_valid_input:
  assumes "L \<noteq> []" and "T \<in> set INPUT_TYPES"
    and "creatorValues s = \<lparr>v_label = Some L, v_defaultValue = Some D, v_type = Some T\<rparr>"
  shows "dispatch s Add_submit = Some (inputCreatorForm_handleSubmit s) \<and>
         inputCreatorForm_handleSubmit s =
           s\<lparr>inputs := inputs s @ [\<lparr>f_label = L, f_value = D, f_type = T\<rparr>],
             creatorValues := \<lparr>v_label = Some [], v_defaultValue = Some [], v_type = None\<rparr>,
             creatorErrors := \<lparr>e_label = None, e_defaultValue = None, e_type = None\<rparr>\<rparr> \<and>
         z_enum_default [''text'', ''number'', ''email'', ''password''] ''text''
           (v_type (creatorValues (inputCreatorForm_handleSubmit s))) = Inr ''text''"
  using assms
  by (simp add: dispatch_def inputCreatorForm_handleSubmit_def inputCreatorSchema_eq
      onCreateInput_def inputCreatorForm_reset_def append_field_def z_enum_default_def z_enum_def)

theorem collector_accepts_valid_input_witness:
  "''Email'' \<noteq> [] \<and> ''email'' \<in> set INPUT_TYPES \<and>
   creatorValues
     (page_ABC\<lparr>creatorValues :=
        \<lparr>v_label = Some ''Email'', v_defaultValue = Some ''a@b.c'', v_type = Some ''email''\<rparr>\<rparr>) =
     \<lparr>v_label = Some ''Email'', v_defaultValue = Some ''a@b.c'', v_type = Some ''email''\<rparr> \<and>
   inputs (inputCreatorForm_handleSubmit
     (page_ABC\<lparr>creatorValues :=
        \<lparr>v_label = Some ''Email'', v_defaultValue = Some ''a@b.c'', v_type = Some ''email''\<rparr>\<rparr>)) =
     [\<lparr>f_label = ''A'', f_value = ''x'', f_type = ''text''\<rparr>,
      \<lparr>f_label = ''B'', f_value = ''y'', f_type = ''email''\<rparr>,
      \<lparr>f_label = ''C'', f_value = ''z'', f_type = ''number''\<rparr>,
      \<lparr>f_label = ''Email'', f_value = ''a@b.c'', f_type = ''email''\<rparr>] \<and>
   creatorValues (inputCreatorForm_handleSubmit
     (page_ABC\<lparr>creatorValues :=
        \<lparr>v_label = Some ''Email'', v_defaultValue = Some ''a@b.c'', v_type = Some ''email''\<rparr>\<rparr>)) =
     \<lparr>v_label = Some [], v_defaultValue = Some [], v_type = None\<rparr>"
  using collector_accepts_valid_input
    [of "''Email''" "''email''"
        "page_ABC\<lparr>creatorValues :=
           \<lparr>v_label = Some ''Email'', v_defaultValue = Some ''a@b.c'', v_type = Some ''email''\<rparr>\<rparr>"
        "''a@b.c''"]
  by (simp add: page_ABC_def INPUT_TYPES_def)

text \<open>
  Claim C4. When the label of the first form is empty (blank, or never typed), submitting
  the form leaves the field list unchanged, and with it the form's values, the second
  form's errors and the toasts: nothing is appended. The only effect is a validation error
  attached to the label field.
\<close>

theorem collector_rejects_empty_label:
  assumes "v_label (creatorValues s) = Some [] \<or> v_label (creatorValues s) = None"
  shows "dispatch s Add_submit = Some (inputCreatorForm_handleSubmit s) \<and>
         inputs (inputCreatorForm_handleSubmit s) = inputs s \<and>
         creatorValues (inputCreatorForm_handleSubmit s) = creatorValues s \<and>
         createdErrors (inputCreatorForm_handleSubmit s) = createdErrors s \<and>
         toasts (inputCreatorForm_handleSubmit s) = toasts s \<and>
         e_label (creatorErrors (inputCreatorForm_handleSubmit s)) =
           (if v_label (creatorValues s) = None then Some Required else Some TooSmall)"
  using assms
  by (auto simp: dispatch_def inputCreatorForm_handleSubmit_def inputCreatorSchema_eq)

theorem collector_rejects_empty_label_witness:
  "v_label (creatorValues page_scenario) = Some [] \<and>
   inputs (inputCreatorForm_handleSubmit page_scenario) = inputs page_scenario \<and>
   e_label (creatorErrors (inputCreatorForm_handleSubmit page_scenario)) = Some TooSmall"
  using collector_rejects_empty_label [of page_scenario]
  by (simp add: page_scenario_def)

text \<open>
  Claim C8. With a non-empty label \<open>L\<close>: a default value that is not specified becomes
  the empty string in the new descriptor; a type that is not specified becomes text; a type
  that is specified is taken when it is one of text, number, email and password, and is
  otherwise rejected with an error on the type field, nothing being appended.
\<close>

theorem collector_defaults:
  assumes "L \<noteq> []" and "v_label (creatorValues s) = Some L"
  shows "(v_defaultValue (creatorValues s) = None \<and> v_type (creatorValues s) = None \<longrightarrow>
            inputs (inputCreatorForm_handleSubmit s) =
              inputs s @ [\<lparr>f_label = L, f_value = [], f_type = ''text''\<rparr>]) \<and>
         (\<forall>D. v_defaultValue (creatorValues s) = Some D \<and> v_type (creatorValues s) = None \<longrightarrow>
            inputs (inputCreatorForm_handleSubmit s) =
              inputs s @ [\<lparr>f_label = L, f_value = D, f_type = ''text''\<rparr>]) \<and>
         (\<forall>T. v_defaultValue (creatorValues s) = None \<and> v_type (creatorValues s) = Some T \<and>
              T \<in> set INPUT_TYPES \<longrightarrow>
            inputs (inputCreatorForm_handleSubmit s) =
              inputs s @ [\<lparr>f_label = L, f_value = [], f_type = T\<rparr>]) \<and>
         (\<forall>T. v_type (creatorValues s) = Some T \<and> T \<notin> set INPUT_TYPES \<longrightarrow>
            inputs (inputCreatorForm_handleSubmit s) = inputs s \<and>
            e_type (creatorErrors (inputCreatorForm_handleSubmit s)) = Some InvalidOption)"
  using assms
  by (auto simp: inputCreatorForm_handleSubmit_def inputCreatorSchema_eq
      onCreateInput_def inputCreatorForm_reset_def append_field_def)

theorem collector_defaults_witness:
  "''Name'' \<noteq> [] \<and>
   v_label (creatorValues (initial\<lparr>creatorValues :=
      \<lparr>v_label = Some ''Name'', v_defaultValue = None, v_type = None\<rparr>\<rparr>)) = Some ''Name'' \<and>
   inputs (inputCreatorForm_handleSubmit (initial\<lparr>creatorValues :=
      \<lparr>v_label = Some ''Name'', v_defaultValue = None, v_type = None\<rparr>\<rparr>)) =
     [\<lparr>f_label = ''Name'', f_value = [], f_type = ''text''\<rparr>] \<and>
   v_type (creatorValues (initial\<lparr>creatorValues :=
      \<lparr>v_label = Some ''Name'', v_defaultValue = None, v_type = Some ''date''\<rparr>\<rparr>)) = Some ''date'' \<and>
   ''date'' \<notin> set INPUT_TYPES \<and>
   inputs (inputCreatorForm_handleSubmit (initial\<lparr>creatorValues :=
      \<lparr>v_label = Some ''Name'', v_defaultValue = None, v_type = Some ''date''\<rparr>\<rparr>)) = [] \<and>
   e_type (creatorErrors (inputCreatorForm_handleSubmit (initial\<lparr>creatorValues :=
      \<lparr>v_label = Some ''Name'', v_defaultValue = None, v_type = Some ''date''\<rparr>\<rparr>))) =
     Some InvalidOption"
  using
    collector_defaults
      [of "''Name''"
          "initial\<lparr>creatorValues :=
             \<lparr>v_label = Some ''Name'', v_defaultValue = None, v_type = None\<rparr>\<rparr>"]
    collector_defaults
      [of "''Name''"
          "initial\<lparr>creatorValues :=
             \<lparr>v_label = Some ''Name'', v_defaultValue = None, v_type = Some ''date''\<rparr>\<rparr>"]
  by (simp add: initial_def INPUT_TYPES_def)

section \<open>The second form: submitting the answers\<close>

text \<open>
  Claim C1, as the code has it. Submitting the second form validates, for every
  descriptor, that the label is non-empty and that the type is one of the four kinds; the
  value may be any string, the empty one too. When every descriptor passes, the toast is
  shown (the result is produced) and the errors are cleared; otherwise no toast is shown
  and each descriptor that fails gets an error on its label or on its type, never on its
  value.
\<close>

theorem submit_validates_labels_and_types:
  "createdForm_handleSubmit s =
     (if \<forall>x\<in>set (inputs s). f_label x \<noteq> [] \<and> f_type x \<in> set INPUT_TYPES
      then s\<lparr>createdErrors := [],
             toasts := toasts s @
               [Div [H3 [Icon ''PartyPopper'', Text ''Answers submitted!''],
                     formatCreatedFormData (inputs s)]]\<rparr>
      else s\<lparr>createdErrors :=
               map (\<lambda>x. if f_label x \<noteq> [] \<and> f_type x \<in> set INPUT_TYPES then None
                         else Some \<lparr>fe_label = (if f_label x = [] then Some TooSmall else None),
                                    fe_value = None,
                                    fe_type = (if f_type x \<in> set INPUT_TYPES then None
                                               else Some InvalidOption)\<rparr>)
                   (inputs s)\<rparr>)"
  by (simp add: createdForm_handleSubmit_def createdFormSchema_eq onCreatedFormSubmit_def)

theorem submit_validates_labels_and_types_witness:
  "createdForm_handleSubmit
     (initial\<lparr>inputs := [\<lparr>f_label = ''Name'', f_value = [], f_type = ''text''\<rparr>]\<rparr>) =
   initial\<lparr>inputs := [\<lparr>f_label = ''Name'', f_value = [], f_type = ''text''\<rparr>],
           toasts := [Div [H3 [Icon ''PartyPopper'', Text ''Answers submitted!''],
                          P [Fragment ''Name'' [Nothing, Strong ''Name'', Text '': '', Text []]]]]\<rparr> \<and>
   createdForm_handleSubmit
     (initial\<lparr>inputs := [\<lparr>f_label = ''Name'', f_value = ''Ada'', f_type = ''text''\<rparr>,
                          \<lparr>f_label = [], f_value = ''0'', f_type = ''number''\<rparr>]\<rparr>) =
   initial\<lparr>inputs := [\<lparr>f_label = ''Name'', f_value = ''Ada'', f_type = ''text''\<rparr>,
                        \<lparr>f_label = [], f_value = ''0'', f_type = ''number''\<rparr>],
           createdErrors := [None, Some \<lparr>fe_label = Some TooSmall, fe_value = None, fe_type = None\<rparr>]\<rparr>"
  using
    submit_validates_labels_and_types
      [of "initial\<lparr>inputs := [\<lparr>f_label = ''Name'', f_value = [], f_type = ''text''\<rparr>]\<rparr>"]
    submit_validates_labels_and_types
      [of "initial\<lparr>inputs := [\<lparr>f_label = ''Name'', f_value = ''Ada'', f_type = ''text''\<rparr>,
                                 \<lparr>f_label = [], f_value = ''0'', f_type = ''number''\<rparr>]\<rparr>"]
  by (simp add: INPUT_TYPES_def initial_def formatCreatedFormData_def)

text \<open>
  Claim C1, as the spec states it, fails: a field Name is defined with no default value,
  so its value is empty, and the second form is submitted. The toast is shown and no error
  is stored.
\<close>

theorem submit_empty_value_counterexample:
  "run [Label_change ''Name'', Add_submit, Created_submit] initial =
     Some \<lparr>creatorValues = \<lparr>v_label = Some [], v_defaultValue = Some [], v_type = None\<rparr>,
           creatorErrors = \<lparr>e_label = None, e_defaultValue = None, e_type = None\<rparr>,
           inputs = [\<lparr>f_label = ''Name'', f_value = [], f_type = ''text''\<rparr>],
           createdErrors = [],
           toasts = [Div [H3 [Icon ''PartyPopper'', Text ''Answers submitted!''],
                          P [Fragment ''Name'' [Nothing, Strong ''Name'', Text '': '', Text []]]]]\<rparr>"
  by (simp add: handler_defs)

text \<open>
  Claim C6. On every page reached from the first rendering by events of rendered controls,
  if every value of the field list is non-empty then the second form's schema accepts the
  list and hands \<^verbatim>\<open>onCreatedFormSubmit\<close> the list itself: the same descriptors, with the
  same labels and values, in the same order; the toast is rendered from it. The Submit
  control that starts this is rendered unless the list is empty. The scenario of the spec
  (Name, Age with default 0, Ada typed into Name) is the instance proved after the theorem.
\<close>

theorem submit_snapshot:
  assumes "run evs initial = Some s" and "\<forall>x\<in>set (inputs s). f_value x \<noteq> []"
  shows "dispatch s Created_submit =
           (if inputs s = [] then None else Some (createdForm_handleSubmit s)) \<and>
         createdFormSchema (inputs s) = Inr (inputs s) \<and>
         createdForm_handleSubmit s =
           s\<lparr>createdErrors := [],
             toasts := toasts s @
               [Div [H3 [Icon ''PartyPopper'', Text ''Answers submitted!''],
                     formatCreatedFormData (inputs s)]]\<rparr>"
proof -
  from assms(1) have ok: "\<forall>x\<in>set (inputs s). f_label x \<noteq> [] \<and> f_type x \<in> set INPUT_TYPES"
    by (rule reachable_labels)
  then have p: "createdFormSchema (inputs s) = Inr (inputs s)"
    by (simp add: createdFormSchema_eq)
  then show ?thesis
    by (simp add: dispatch_def createdForm_handleSubmit_def onCreatedFormSubmit_def)
qed

theorem submit_snapshot_witness:
  "run scenario initial = Some page_scenario \<and>
   map f_value (inputs page_scenario) = [''Ada'', ''0''] \<and>
   dispatch page_scenario Created_submit = Some (createdForm_handleSubmit page_scenario) \<and>
   createdFormSchema (inputs page_scenario) =
     Inr [\<lparr>f_label = ''Name'', f_value = ''Ada'', f_type = ''text''\<rparr>,
          \<lparr>f_label = ''Age'', f_value = ''0'', f_type = ''number''\<rparr>] \<and>
   toasts (createdForm_handleSubmit page_scenario) =
     [Div [H3 [Icon ''PartyPopper'', Text ''Answers submitted!''],
           P [Fragment ''Name'' [Nothing, Strong ''Name'', Text '': '', Text ''Ada''],
              Fragment ''Age'' [Text '', '', Strong ''Age'', Text '': '', Text ''0'']]]]"
proof -
  have r: "run scenario initial = Some page_scenario"
    by (simp add: scenario_def page_scenario_def handler_defs)
  have v: "\<forall>x\<in>set (inputs page_scenario). f_value x \<noteq> []"
    by (simp add: page_scenario_def)
  have i: "inputs page_scenario =
             [\<lparr>f_label = ''Name'', f_value = ''Ada'', f_type = ''text''\<rparr>,
              \<lparr>f_label = ''Age'', f_value = ''0'', f_type = ''number''\<rparr>]"
    and t: "toasts page_scenario = []"
    by (simp_all add: page_scenario_def)
  have f: "formatCreatedFormData
             [\<lparr>f_label = ''Name'', f_value = ''Ada'', f_type = ''text''\<rparr>,
              \<lparr>f_label = ''Age'', f_value = ''0'', f_type = ''number''\<rparr>] =
           P [Fragment ''Name'' [Nothing, Strong ''Name'', Text '': '', Text ''Ada''],
              Fragment ''Age'' [Text '', '', Strong ''Age'', Text '': '', Text ''0'']]"
    by (simp add: formatCreatedFormData_def)
  from submit_snapshot [OF r v] r show ?thesis
    by (simp add: i t f)
qed

text \<open>
  Claim C10. The Submit control of the second form is rendered exactly when the field list
  is non-empty, so on an empty list its handler is not reached; no event that a page with
  an empty list can receive shows a toast; and no page reached from the first rendering
  holds a toast rendered from an empty list.
\<close>

theorem submit_offered_on_nonempty_list:
  "(rendered s Created_submit \<longleftrightarrow> inputs s \<noteq> []) \<and>
   (inputs s = [] \<longrightarrow> dispatch s Created_submit = None) \<and>
   (inputs s = [] \<and> dispatch s ev = Some s' \<longrightarrow> toasts s' = toasts s) \<and>
   (run evs initial = Some s'' \<longrightarrow>
      Div [H3 [Icon ''PartyPopper'', Text ''Answers submitted!''], formatCreatedFormData []]
        \<notin> set (toasts s''))"
proof -
  have a: "rendered s Created_submit \<longleftrightarrow> inputs s \<noteq> []"
    by simp
  have b: "inputs s = [] \<longrightarrow> dispatch s Created_submit = None"
    by (simp add: dispatch_def)
  have c: "inputs s = [] \<and> dispatch s ev = Some s' \<longrightarrow> toasts s' = toasts s"
    using handle_toasts [of s ev] by (auto simp: dispatch_def split: if_splits)
  have d: "run evs initial = Some s'' \<longrightarrow>
      Div [H3 [Icon ''PartyPopper'', Text ''Answers submitted!''], formatCreatedFormData []]
        \<notin> set (toasts s'')"
    using run_toasts [of evs initial s''] by (simp add: initial_def)
  from a b c d show ?thesis
    by blast
qed

theorem submit_offered_on_nonempty_list_witness:
  "inputs initial = [] \<and> dispatch initial Created_submit = None \<and>
   dispatch initial Add_submit =
     Some (initial\<lparr>creatorErrors := \<lparr>e_label = Some Required, e_defaultValue = None, e_type = None\<rparr>\<rparr>) \<and>
   toasts (initial\<lparr>creatorErrors := \<lparr>e_label = Some Required, e_defaultValue = None, e_type = None\<rparr>\<rparr>) = [] \<and>
   run [Add_submit] initial =
     Some (initial\<lparr>creatorErrors := \<lparr>e_label = Some Required, e_defaultValue = None, e_type = None\<rparr>\<rparr>)"
  using submit_offered_on_nonempty_list
    [of initial Add_submit
        "initial\<lparr>creatorErrors := \<lparr>e_label = Some Required, e_defaultValue = None, e_type = None\<rparr>\<rparr>"
        "[Add_submit]"
        "initial\<lparr>creatorErrors := \<lparr>e_label = Some Required, e_defaultValue = None, e_type = None\<rparr>\<rparr>"]
  by (simp add: handler_defs)

section \<open>When the Move button exists, and indices out of range\<close>

text \<open>
  Claim C7. The Move button of a row is rendered exactly when the row exists and the list
  has at least two rows. On a list with exactly one row no Move button is rendered and the
  move handler is not reached; whenever it is reached, the list has at least two rows.
\<close>

theorem move_offered_from_two_rows:
  "(rendered s (Move_click i) \<longleftrightarrow> i < length (inputs s) \<and> 2 \<le> length (inputs s)) \<and>
   (length (inputs s) = 1 \<longrightarrow> \<not> rendered s (Move_click i) \<and> dispatch s (Move_click i) = None) \<and>
   (dispatch s (Move_click i) = Some s' \<longrightarrow> 2 \<le> length (inputs s))"
  by (auto simp: dispatch_def)

theorem move_offered_from_two_rows_witness:
  "length (inputs (initial\<lparr>inputs := [\<lparr>f_label = ''A'', f_value = ''x'', f_type = ''text''\<rparr>]\<rparr>)) = 1 \<and>
   dispatch (initial\<lparr>inputs := [\<lparr>f_label = ''A'', f_value = ''x'', f_type = ''text''\<rparr>]\<rparr>)
     (Move_click 0) = None \<and>
   dispatch page_ABC (Move_click 0) = Some (move_onClick 0 page_ABC) \<and>
   (2::nat) \<le> length (inputs page_ABC)"
  using
    move_offered_from_two_rows
      [of "initial\<lparr>inputs := [\<lparr>f_label = ''A'', f_value = ''x'', f_type = ''text''\<rparr>]\<rparr>" 0]
    move_offered_from_two_rows [of page_ABC 0 "move_onClick 0 page_ABC"]
  by (simp add: page_ABC_def dispatch_def)




end
